theory Spec2Isabelle
  imports Main "HOL-Library.Sublist"
begin

section \<open>memory.py: the tiered memory manager\<close>

text \<open>
  The class \<open>MemoryManager\<close> of \<open>memory.py\<close> is embedded method by method. A method
  mutates the object, may raise and may print, so each one is a function from the
  object's state to a triple: what the call did (\<open>Inl\<close> the exception raised, \<open>Inr\<close> the
  value returned), the object's state when the call ended (a mutation made before a
  raise stays, as it does in Python), and the lines the call printed.
\<close>

subsection \<open>Data\<close>

text \<open>
  The exceptions the code can meet: \<open>list.pop(0)\<close> on an empty list, and whatever the
  injected \<open>llm_module\<close> raises (its message is the payload).
\<close>

datatype error = IndexError | DelegateError string

text \<open>
  The attributes set by \<open>__init__\<close>. Integers are Python's unbounded ones; the two
  vector-store handles are the placeholders \<open>None\<close>.
\<close>

record memory_manager =
  short_term :: "string list"
  short_term_limit :: int
  chroma_client :: "unit option"
  collection :: "unit option"
  user_message_count :: int

definition MemoryManager :: "int \<Rightarrow> memory_manager" where
  "MemoryManager limit =
     \<lparr>short_term = [], short_term_limit = limit, chroma_client = None,
      collection = None, user_message_count = 0\<rparr>"

text \<open>The injected collaborator: \<open>llm_module.generate_response_for_memory\<close>.\<close>

type_synonym llm_module = "string \<Rightarrow> error + string"

type_synonym 'a effect = "(error + 'a) \<times> memory_manager \<times> string list"

abbreviation outcome :: "'a effect \<Rightarrow> error + 'a" where
  "outcome r \<equiv> fst r"

abbreviation after :: "'a effect \<Rightarrow> memory_manager" where
  "after r \<equiv> fst (snd r)"

abbreviation printed :: "'a effect \<Rightarrow> string list" where
  "printed r \<equiv> snd (snd r)"

subsection \<open>Strings\<close>

abbreviation nl :: string where
  "nl \<equiv> [CHR 0x0A]"

text \<open>
  \<open>str.lower\<close>: the letters A to Z are mapped to a to z. Other characters are kept; no
  character outside A to Z lowers to one of u, s, e, r, so the comparison with
  \<open>"user"\<close> below is Python's.
\<close>

definition lower_char :: "char \<Rightarrow> char" where
  "lower_char c =
     (if 65 \<le> (of_char c :: nat) \<and> (of_char c :: nat) \<le> 90
      then char_of (of_char c + (32 :: nat)) else c)"

definition lower :: "string \<Rightarrow> string" where
  "lower s = map lower_char s"

text \<open>\<open>sep.join(xs)\<close>.\<close>

fun join :: "string \<Rightarrow> string list \<Rightarrow> string" where
  "join sep [] = []"
| "join sep [x] = x"
| "join sep (x # y # ys) = x @ sep @ join sep (y # ys)"

subsection \<open>The short-term buffer\<close>

text \<open>
  The loop of \<open>add_to_short_term\<close>:
  \<^verbatim>\<open>while len(self.short_term) > self.short_term_limit: self.short_term.pop(0)\<close>.
  It returns the list it leaves behind; \<open>pop(0)\<close> on the empty list raises.
\<close>

fun evict :: "int \<Rightarrow> string list \<Rightarrow> (error + unit) \<times> string list" where
  "evict limit [] = (if int (length ([] :: string list)) > limit then (Inl IndexError, []) else (Inr (), []))"
| "evict limit (x # xs) =
     (if int (length (x # xs)) > limit then evict limit xs else (Inr (), x # xs))"

text \<open>The line appended for a turn: the f-string \<^verbatim>\<open>f"{role}: {content}"\<close>.\<close>

definition render :: "string \<Rightarrow> string \<Rightarrow> string" where
  "render role content = role @ '': '' @ content"

definition add_to_short_term :: "string \<Rightarrow> string \<Rightarrow> memory_manager \<Rightarrow> unit effect" where
  "add_to_short_term role content self =
     (case evict (short_term_limit self) (short_term self @ [render role content]) of
        (Inl e, kept) \<Rightarrow> (Inl e, self\<lparr>short_term := kept\<rparr>, [])
      | (Inr _, kept) \<Rightarrow>
          (Inr (),
           self\<lparr>short_term := kept,
                user_message_count :=
                  (if lower role = ''user'' then user_message_count self + 1
                   else user_message_count self)\<rparr>,
           []))"

definition get_short_term_context :: "memory_manager \<Rightarrow> string list effect" where
  "get_short_term_context self = (Inr (short_term self), self, [])"

subsection \<open>Long-term memory (placeholders)\<close>

definition store_long_term_memory :: "string \<Rightarrow> memory_manager \<Rightarrow> unit effect" where
  "store_long_term_memory summary self =
     (Inr (), self, [''[Memory] Storing summary in long-term DB: '' @ take 60 summary @ ''...''])"

definition get_relevant_memories :: "string \<Rightarrow> memory_manager \<Rightarrow> string list effect" where
  "get_relevant_memories query self =
     (Inr [], self, [''[Memory] Searching for relevant memories for: '' @ query])"

subsection \<open>Consolidation\<close>

text \<open>The prompt built from the buffer: the f-string of \<open>maybe_summarize_short_term\<close>.\<close>

definition summarization_prompt :: "string list \<Rightarrow> string" where
  "summarization_prompt lines =
     ''Summarize the following conversation into key points or Q&A pairs:'' @ nl @
     ''            ---'' @ nl @
     ''            '' @ join nl lines @ nl @
     ''            ---'' @ nl @
     ''            Return the most important facts or topics that should be remembered.''"

definition maybe_summarize_short_term :: "llm_module \<Rightarrow> memory_manager \<Rightarrow> unit effect" where
  "maybe_summarize_short_term llm self =
     (if user_message_count self mod 10 = 0 \<and> user_message_count self > 0 then
        (case llm (summarization_prompt (short_term self)) of
           Inl e \<Rightarrow> (Inl e, self, [''[Memory] Summarizing short-term memory...''])
         | Inr summary \<Rightarrow>
             (case store_long_term_memory summary self of
                (r, self', out) \<Rightarrow>
                  (r, self',
                   [''[Memory] Summarizing short-term memory...'',
                    ''[Memory] Summarization result: '' @ summary] @ out)))
      else (Inr (), self, []))"

subsection \<open>Prompt composition\<close>

definition build_llm_prompt :: "string \<Rightarrow> string list \<Rightarrow> memory_manager \<Rightarrow> string effect" where
  "build_llm_prompt user_message relevant_memories self =
     (Inr (nl @
           ''You are a helpful assistant. Below are relevant facts from memory:'' @ nl @
           join nl relevant_memories @ nl @
           nl @
           ''Here is the recent conversation:'' @ nl @
           join nl (short_term self) @ nl @
           nl @
           ''Now the user says:'' @ nl @
           ''User: '' @ user_message @ nl @
           nl @
           ''Please respond in a clear and concise manner.'' @ nl),
      self, [])"

text \<open>
  The four fixed pieces of that f-string, between and around which the three inputs are
  placed.
\<close>

definition facts_heading :: string where
  "facts_heading =
     nl @ ''You are a helpful assistant. Below are relevant facts from memory:'' @ nl"

definition conversation_heading :: string where
  "conversation_heading = nl @ nl @ ''Here is the recent conversation:'' @ nl"

definition message_heading :: string where
  "message_heading = nl @ nl @ ''Now the user says:'' @ nl @ ''User: ''"

definition closing_instruction :: string where
  "closing_instruction = nl @ nl @ ''Please respond in a clear and concise manner.'' @ nl"

subsection \<open>Sequences of calls\<close>

text \<open>
  A caller that appends turns one after the other; an exception ends the sequence, as
  an uncaught exception ends the conversation loop.
\<close>

fun add_all :: "(string \<times> string) list \<Rightarrow> memory_manager \<Rightarrow> (error + unit) \<times> memory_manager" where
  "add_all [] self = (Inr (), self)"
| "add_all ((role, content) # rest) self =
     (case add_to_short_term role content self of
        (Inl e, self', _) \<Rightarrow> (Inl e, self')
      | (Inr _, self', _) \<Rightarrow> add_all rest self')"

text \<open>
  Any call of any method, and the state a sequence of such calls leaves, whether or not
  the caller catches what a call raises.
\<close>

datatype call =
    Add string string
  | Context
  | MaybeSummarize llm_module
  | Store string
  | Relevant string
  | Build string "string list"

fun state_after :: "call \<Rightarrow> memory_manager \<Rightarrow> memory_manager" where
  "state_after (Add role content) self = after (add_to_short_term role content self)"
| "state_after Context self = after (get_short_term_context self)"
| "state_after (MaybeSummarize llm) self = after (maybe_summarize_short_term llm self)"
| "state_after (Store summary) self = after (store_long_term_memory summary self)"
| "state_after (Relevant query) self = after (get_relevant_memories query self)"
| "state_after (Build user_message relevant_memories) self =
     after (build_llm_prompt user_message relevant_memories self)"

fun run :: "call list \<Rightarrow> memory_manager \<Rightarrow> memory_manager" where
  "run [] self = self"
| "run (c # cs) self = run cs (state_after c self)"

section \<open>The short-term buffer: capacity, eviction order, the user counter\<close>

subsection \<open>The eviction loop\<close>

text \<open>
  With a limit that is not negative the loop stops before the list is empty and keeps
  the newest lines; with a negative limit it empties the list and then pops once more.
\<close>

lemma evict_nonneg:
  "0 \<le> limit \<Longrightarrow> evict limit xs = (Inr (), drop (length xs - nat limit) xs)"
proof (induction xs)
  case Nil
  then show ?case by simp
next
  case (Cons x xs)
  show ?case
  proof (cases "int (length (x # xs)) > limit")
    case True
    then have "length (x # xs) - nat limit = Suc (length xs - nat limit)"
      using Cons.prems by auto
    with True Cons show ?thesis by simp
  next
    case False
    then have "length (x # xs) - nat limit = 0" by simp
    with False show ?thesis by simp
  qed
qed

lemma evict_negative:
  "limit < 0 \<Longrightarrow> evict limit xs = (Inl IndexError, [])"
  by (induction xs) auto

lemma add_nonneg:
  "0 \<le> short_term_limit s \<Longrightarrow>
   add_to_short_term role content s =
     (Inr (),
      s\<lparr>short_term :=
          drop (Suc (length (short_term s)) - nat (short_term_limit s))
            (short_term s @ [render role content]),
        user_message_count :=
          (if lower role = ''user'' then user_message_count s + 1 else user_message_count s)\<rparr>,
      [])"
  by (simp add: add_to_short_term_def evict_nonneg)

lemma add_negative:
  "short_term_limit s < 0 \<Longrightarrow>
   add_to_short_term role content s = (Inl IndexError, s\<lparr>short_term := []\<rparr>, [])"
  by (simp add: add_to_short_term_def evict_negative)

text \<open>Keeping the last \<open>n\<close> lines after every append keeps the last \<open>n\<close> of them all.\<close>

lemma keep_last_append:
  "drop (length (drop (length xs - n) xs @ ys) - n) (drop (length xs - n) xs @ ys) =
   drop (length (xs @ ys) - n) (xs @ ys)"
proof (cases "length xs \<le> n")
  case True
  then show ?thesis by simp
next
  case False
  then have "length (drop (length xs - n) xs @ ys) - n = length ys" by simp
  moreover from False have "length (xs @ ys) - n = length ys + (length xs - n)" by simp
  ultimately show ?thesis by (simp add: drop_drop [symmetric] del: drop_drop)
qed

lemma add_all_nonneg:
  "0 \<le> short_term_limit s \<Longrightarrow>
   add_all calls s =
     (Inr (),
      (if calls = [] then s else
      s\<lparr>short_term :=
          drop (length (short_term s @ map (\<lambda>(role, content). render role content) calls)
                 - nat (short_term_limit s))
            (short_term s @ map (\<lambda>(role, content). render role content) calls),
        user_message_count :=
          user_message_count s +
          int (length (filter (\<lambda>(role, content). lower role = ''user'') calls))\<rparr>))"
proof (induction calls arbitrary: s)
  case Nil
  then show ?case by simp
next
  case (Cons c calls)
  obtain role content where c: "c = (role, content)" by (cases c)
  let ?s1 = "after (add_to_short_term role content s)"
  let ?line = "render role content"
  let ?rest = "map (\<lambda>(role, content). render role content) calls"
  let ?n = "nat (short_term_limit s)"
  have lim: "short_term_limit ?s1 = short_term_limit s" "0 \<le> short_term_limit ?s1"
    using Cons.prems by (simp_all add: add_nonneg)
  have step: "add_all (c # calls) s = add_all calls ?s1"
    using Cons.prems by (simp add: c add_nonneg)
  show ?case
  proof (cases "calls = []")
    case True
    then show ?thesis using Cons.prems by (simp add: c add_nonneg)
  next
    case False
    have k: "drop (length (drop (length (short_term s @ [?line]) - ?n) (short_term s @ [?line]) @ ?rest) - ?n)
               (drop (length (short_term s @ [?line]) - ?n) (short_term s @ [?line]) @ ?rest) =
             drop (length ((short_term s @ [?line]) @ ?rest) - ?n) ((short_term s @ [?line]) @ ?rest)"
      by (rule keep_last_append)
    show ?thesis
      unfolding step Cons.IH [OF lim(2)] lim(1)
      using False Cons.prems k by (simp add: c add_nonneg)
  qed
qed

subsection \<open>The counter never goes down\<close>

lemma add_count_mono:
  "user_message_count s \<le> user_message_count (after (add_to_short_term role content s))"
proof (cases "0 \<le> short_term_limit s")
  case True
  then show ?thesis by (simp add: add_nonneg)
next
  case False
  then show ?thesis by (simp add: add_negative)
qed

lemma maybe_summarize_state:
  "after (maybe_summarize_short_term llm s) = s"
  by (simp add: maybe_summarize_short_term_def store_long_term_memory_def split: sum.splits)

lemma state_after_count_mono:
  "user_message_count s \<le> user_message_count (state_after c s)"
  by (cases c)
     (simp_all add: add_count_mono maybe_summarize_state get_short_term_context_def
        store_long_term_memory_def get_relevant_memories_def build_llm_prompt_def)

lemma run_count_mono:
  "user_message_count s \<le> user_message_count (run cs s)"
proof (induction cs arbitrary: s)
  case Nil
  then show ?case by simp
next
  case (Cons c cs)
  have "user_message_count s \<le> user_message_count (state_after c s)"
    by (rule state_after_count_mono)
  also have "\<dots> \<le> user_message_count (run cs (state_after c s))"
    by (rule Cons.IH)
  finally show ?case by simp
qed

lemma lower_user: "lower ''user'' = ''user''"
  by code_simp

lemma lower_USER: "lower ''USER'' = ''user''"
  by code_simp

lemma lower_AGENT: "lower ''AGENT'' \<noteq> ''user''"
  by code_simp

subsection \<open>Capacity and eviction order\<close>

text \<open>
  C1. For every capacity \<open>N\<close> (a capacity is a count of messages, a number that is
  not negative) and every sequence of \<open>add_to_short_term\<close> calls on a new manager, every
  call returns, the buffer's length does not exceed \<open>N\<close>, and the buffer holds exactly
  the \<open>min N (number of appends)\<close> most recently appended rendered turns, in the order
  of the appends: the oldest line is the first to go. The statement is about every
  sequence, so it holds after each call.
\<close>

theorem short_term_fifo:
  "0 \<le> N \<Longrightarrow>
   fst (add_all calls (MemoryManager N)) = Inr () \<and>
   short_term (snd (add_all calls (MemoryManager N))) =
     drop (length calls - min (nat N) (length calls))
       (map (\<lambda>(role, content). render role content) calls) \<and>
   length (short_term (snd (add_all calls (MemoryManager N)))) = min (nat N) (length calls) \<and>
   int (length (short_term (snd (add_all calls (MemoryManager N))))) \<le> N"
proof -
  assume N: "0 \<le> N"
  then have lim: "0 \<le> short_term_limit (MemoryManager N)"
    by (simp add: MemoryManager_def)
  have d: "length calls - min (nat N) (length calls) = length calls - nat N"
    by simp
  show ?thesis
    unfolding add_all_nonneg [OF lim] d
    using N by (cases "calls = []") (auto simp: MemoryManager_def)
qed

text \<open>Capacity 3 and four appends: the first turn is gone, the other three are in order.\<close>

theorem short_term_fifo_witness:
  "(0 :: int) \<le> 3 \<and>
   short_term (snd (add_all [(''USER'', ''a''), (''AGENT'', ''x''), (''USER'', ''b''), (''AGENT'', ''y'')]
      (MemoryManager 3))) = [''AGENT: x'', ''USER: b'', ''AGENT: y'']"
  using short_term_fifo [of 3 "[(''USER'', ''a''), (''AGENT'', ''x''), (''USER'', ''b''), (''AGENT'', ''y'')]"]
  by (simp add: render_def)

subsection \<open>The user counter\<close>

text \<open>
  C2 (as amended). On a manager whose \<open>short_term_limit\<close> is not negative, every call of
  a sequence of \<open>add_to_short_term\<close> calls returns, and afterwards \<open>user_message_count\<close>
  has grown by the number of those calls whose role, lowered, is \<open>user\<close>, whatever has
  been evicted from the buffer. On every manager and across every sequence of calls of
  any of the methods, raising or not, the counter never decreases.
\<close>

theorem user_message_count_total:
  "(0 \<le> short_term_limit self \<longrightarrow>
      fst (add_all calls self) = Inr () \<and>
      user_message_count (snd (add_all calls self)) =
        user_message_count self +
        int (length (filter (\<lambda>(role, content). lower role = ''user'') calls))) \<and>
   user_message_count self \<le> user_message_count (run cs self)"
  by (simp add: add_all_nonneg run_count_mono)

text \<open>Capacity 2, four appends, two of them the user's: both are counted, two lines are gone.\<close>

theorem user_message_count_total_witness:
  "0 \<le> short_term_limit (MemoryManager 2) \<and>
   user_message_count (snd (add_all [(''USER'', ''a''), (''AGENT'', ''x''), (''user'', ''b''), (''AGENT'', ''y'')]
      (MemoryManager 2))) = 2 \<and>
   length (short_term (snd (add_all [(''USER'', ''a''), (''AGENT'', ''x''), (''user'', ''b''), (''AGENT'', ''y'')]
      (MemoryManager 2)))) = 2"
proof -
  have lim: "0 \<le> short_term_limit (MemoryManager 2)"
    by (simp add: MemoryManager_def)
  show ?thesis
    using lim user_message_count_total [of "MemoryManager 2"
      "[(''USER'', ''a''), (''AGENT'', ''x''), (''user'', ''b''), (''AGENT'', ''y'')]" "[]"]
    unfolding add_all_nonneg [OF lim]
    by (simp add: MemoryManager_def lower_user lower_USER lower_AGENT)
qed

text \<open>
  With the capacity \<open>-1\<close> a user's turn raises in the eviction loop, before the counter
  is reached: one call with the role \<open>user\<close>, and a counter of 0.
\<close>

theorem user_message_count_total_counterexample:
  "user_message_count (snd (add_all [(''user'', ''hi'')] (MemoryManager (- 1)))) = 0 \<and>
   length (filter (\<lambda>(role, content). lower role = ''user'') [(''user'', ''hi'')]) = 1"
  by (simp add: add_negative MemoryManager_def lower_user)

subsection \<open>Appending succeeds\<close>

text \<open>
  C9 (as amended). For every \<open>short_term_limit\<close> that is not negative, every role and
  every content, \<open>add_to_short_term\<close> returns without raising, whatever the buffer held
  before. (The model is a total function: the eviction loop ends on every input.)
\<close>

theorem add_to_short_term_succeeds:
  "0 \<le> short_term_limit self \<Longrightarrow> outcome (add_to_short_term role content self) = Inr ()"
  by (simp add: add_nonneg)

theorem add_to_short_term_succeeds_witness:
  "0 \<le> short_term_limit (MemoryManager 0) \<and>
   outcome (add_to_short_term ''AI'' ''Hi'' (MemoryManager 0)) = Inr ()"
  using add_to_short_term_succeeds [of "MemoryManager 0" "''AI''" "''Hi''"]
  by (simp add: MemoryManager_def)

text \<open>A manager made with the limit \<open>-3\<close>: the append raises \<open>IndexError\<close>.\<close>

theorem add_to_short_term_succeeds_counterexample:
  "add_to_short_term ''AI'' ''Hi'' (MemoryManager (- 3)) =
     (Inl IndexError, MemoryManager (- 3), [])"
  by (simp add: add_negative MemoryManager_def)

section \<open>Consolidation\<close>

subsection \<open>The two branches of the trigger\<close>

lemma maybe_summarize_fires:
  "0 < user_message_count s \<Longrightarrow> user_message_count s mod 10 = 0 \<Longrightarrow>
   maybe_summarize_short_term llm s =
     (case llm (summarization_prompt (short_term s)) of
        Inl e \<Rightarrow> (Inl e, s, [''[Memory] Summarizing short-term memory...''])
      | Inr summary \<Rightarrow>
          (Inr (), s,
           [''[Memory] Summarizing short-term memory...'',
            ''[Memory] Summarization result: '' @ summary,
            ''[Memory] Storing summary in long-term DB: '' @ take 60 summary @ ''...'']))"
  by (simp add: maybe_summarize_short_term_def store_long_term_memory_def split: sum.splits)

lemma maybe_summarize_idle:
  "\<not> (0 < user_message_count s \<and> user_message_count s mod 10 = 0) \<Longrightarrow>
   maybe_summarize_short_term llm s = (Inr (), s, [])"
  by (auto simp add: maybe_summarize_short_term_def)

lemma maybe_summarize_printed:
  "(printed (maybe_summarize_short_term llm s) \<noteq> []) =
   (0 < user_message_count s \<and> user_message_count s mod 10 = 0)"
  by (auto simp add: maybe_summarize_short_term_def store_long_term_memory_def split: sum.splits)

lemma state_after_short_term:
  "(\<forall>role content. c \<noteq> Add role content) \<Longrightarrow> short_term (state_after c s) = short_term s"
  by (cases c)
     (simp_all add: maybe_summarize_state get_short_term_context_def
        store_long_term_memory_def get_relevant_memories_def build_llm_prompt_def)

subsection \<open>When consolidation fires\<close>

text \<open>
  C3 (as amended). Consolidation fires exactly when \<open>user_message_count\<close> is a positive
  multiple of 10, the constant written in \<open>maybe_summarize_short_term\<close>; the method takes
  no threshold and the class holds none. When it fires, the delegate is given the
  summarization prompt of the lines now in the buffer and, if it returns, its summary is
  handed to \<open>store_long_term_memory\<close>; otherwise the call does nothing, prints nothing
  and returns. Whether it fires depends on the counter alone: two managers with the same
  counter agree, whatever their buffers, limits and delegates.
\<close>

theorem consolidation_trigger:
  "(0 < user_message_count self \<and> 10 dvd user_message_count self \<longrightarrow>
      maybe_summarize_short_term llm self =
        (case llm (summarization_prompt (short_term self)) of
           Inl e \<Rightarrow> (Inl e, self, [''[Memory] Summarizing short-term memory...''])
         | Inr summary \<Rightarrow>
             (Inr (), self,
              [''[Memory] Summarizing short-term memory...'',
               ''[Memory] Summarization result: '' @ summary,
               ''[Memory] Storing summary in long-term DB: '' @ take 60 summary @ ''...'']))) \<and>
   (\<not> (0 < user_message_count self \<and> 10 dvd user_message_count self) \<longrightarrow>
      maybe_summarize_short_term llm self = (Inr (), self, [])) \<and>
   (user_message_count self = user_message_count other \<longrightarrow>
      (printed (maybe_summarize_short_term llm self) = []) =
      (printed (maybe_summarize_short_term llm' other) = []))"
proof (intro conjI impI)
  assume "0 < user_message_count self \<and> 10 dvd user_message_count self"
  then show "maybe_summarize_short_term llm self =
        (case llm (summarization_prompt (short_term self)) of
           Inl e \<Rightarrow> (Inl e, self, [''[Memory] Summarizing short-term memory...''])
         | Inr summary \<Rightarrow>
             (Inr (), self,
              [''[Memory] Summarizing short-term memory...'',
               ''[Memory] Summarization result: '' @ summary,
               ''[Memory] Storing summary in long-term DB: '' @ take 60 summary @ ''...'']))"
    by (simp add: maybe_summarize_fires mod_eq_0_iff_dvd)
next
  assume "\<not> (0 < user_message_count self \<and> 10 dvd user_message_count self)"
  then show "maybe_summarize_short_term llm self = (Inr (), self, [])"
    by (simp add: maybe_summarize_idle mod_eq_0_iff_dvd)
next
  assume "user_message_count self = user_message_count other"
  then show "(printed (maybe_summarize_short_term llm self) = []) =
      (printed (maybe_summarize_short_term llm' other) = [])"
    using maybe_summarize_printed [of llm self] maybe_summarize_printed [of llm' other]
    by auto
qed

text \<open>Ten user turns on a manager of capacity 3: the tenth makes the trigger fire.\<close>

theorem consolidation_trigger_witness:
  "maybe_summarize_short_term (\<lambda>prompt. Inr ''facts'')
     (snd (add_all (replicate 10 (''user'', ''hi'')) (MemoryManager 3))) =
   (Inr (), snd (add_all (replicate 10 (''user'', ''hi'')) (MemoryManager 3)),
    [''[Memory] Summarizing short-term memory...'',
     ''[Memory] Summarization result: facts'',
     ''[Memory] Storing summary in long-term DB: facts...''])"
proof -
  have lim: "0 \<le> short_term_limit (MemoryManager 3)"
    by (simp add: MemoryManager_def)
  show ?thesis
    using consolidation_trigger [of "snd (add_all (replicate 10 (''user'', ''hi'')) (MemoryManager 3))"
      "\<lambda>prompt. Inr ''facts''"]
    unfolding add_all_nonneg [OF lim]
    by (simp add: MemoryManager_def lower_user)
qed

text \<open>
  The scenario with the threshold 2: capacity 3, the turns USER a, AGENT x, USER b. The
  counter is 2, a positive multiple of 2, and the call does nothing.
\<close>

theorem consolidation_trigger_counterexample:
  "user_message_count
     (snd (add_all [(''USER'', ''a''), (''AGENT'', ''x''), (''USER'', ''b'')] (MemoryManager 3))) = 2 \<and>
   (0 :: int) < 2 \<and> (2 :: int) mod 2 = 0 \<and>
   maybe_summarize_short_term (\<lambda>prompt. Inr ''facts'')
     (snd (add_all [(''USER'', ''a''), (''AGENT'', ''x''), (''USER'', ''b'')] (MemoryManager 3))) =
   (Inr (), snd (add_all [(''USER'', ''a''), (''AGENT'', ''x''), (''USER'', ''b'')] (MemoryManager 3)), [])"
proof -
  have lim: "0 \<le> short_term_limit (MemoryManager 3)"
    by (simp add: MemoryManager_def)
  show ?thesis
    unfolding add_all_nonneg [OF lim]
    by (simp add: MemoryManager_def lower_USER lower_AGENT maybe_summarize_short_term_def)
qed

subsection \<open>A failing delegate\<close>

text \<open>
  C4 (as amended). \<open>maybe_summarize_short_term\<close> has no handler: when the trigger fires
  and the delegate's call raises, the call raises the same error to its caller. It
  returns normally exactly when the trigger does not fire (the delegate is then not
  called) or the delegate returns; \<open>store_long_term_memory\<close> itself does not raise.
\<close>

theorem summarizer_failure_propagates:
  "outcome (maybe_summarize_short_term llm self) =
     (if user_message_count self mod 10 = 0 \<and> user_message_count self > 0
      then (case llm (summarization_prompt (short_term self)) of
              Inl e \<Rightarrow> Inl e
            | Inr summary \<Rightarrow> Inr ())
      else Inr ())"
  by (simp add: maybe_summarize_short_term_def store_long_term_memory_def split: sum.splits)

text \<open>Twenty user turns, and a delegate that returns: the call returns.\<close>

theorem summarizer_failure_propagates_witness:
  "outcome (maybe_summarize_short_term (\<lambda>prompt. Inr ''facts'')
     (MemoryManager 10\<lparr>user_message_count := 20\<rparr>)) = Inr ()"
  using summarizer_failure_propagates [of "\<lambda>prompt. Inr ''facts''"
     "MemoryManager 10\<lparr>user_message_count := 20\<rparr>"]
  by (simp add: MemoryManager_def)

text \<open>Ten user turns, and a delegate that times out: the caller gets the error.\<close>

theorem summarizer_failure_propagates_counterexample:
  "outcome (maybe_summarize_short_term (\<lambda>prompt. Inl (DelegateError ''timeout''))
     (snd (add_all (replicate 10 (''user'', ''hi'')) (MemoryManager 10)))) =
   Inl (DelegateError ''timeout'')"
proof -
  have lim: "0 \<le> short_term_limit (MemoryManager 10)"
    by (simp add: MemoryManager_def)
  show ?thesis
    unfolding add_all_nonneg [OF lim]
    by (simp add: MemoryManager_def lower_user maybe_summarize_short_term_def)
qed

subsection \<open>Summarization reads the buffer and leaves it\<close>

text \<open>
  C5. For every state and every delegate, returning or raising,
  \<open>maybe_summarize_short_term\<close> leaves the whole state, and so the short-term buffer, as
  it was. When the delegate raises, \<open>store_long_term_memory\<close> is not reached: none of
  the lines printed is its line. No call other than \<open>add_to_short_term\<close> changes the
  buffer, so lines leave it only through that method's capacity rule.
\<close>

theorem summarization_keeps_buffer:
  "after (maybe_summarize_short_term llm self) = self \<and>
   short_term (after (maybe_summarize_short_term llm self)) = short_term self \<and>
   (\<forall>e. llm (summarization_prompt (short_term self)) = Inl e \<longrightarrow>
      (\<forall>line \<in> set (printed (maybe_summarize_short_term llm self)).
         \<not> prefix ''[Memory] Storing summary'' line)) \<and>
   (\<forall>c. (\<forall>role content. c \<noteq> Add role content) \<longrightarrow>
      short_term (state_after c self) = short_term self)"
proof (intro conjI allI impI)
  show "after (maybe_summarize_short_term llm self) = self"
    by (rule maybe_summarize_state)
  then show "short_term (after (maybe_summarize_short_term llm self)) = short_term self"
    by simp
next
  fix e
  assume "llm (summarization_prompt (short_term self)) = Inl e"
  then have "set (printed (maybe_summarize_short_term llm self)) \<subseteq>
      {''[Memory] Summarizing short-term memory...''}"
    by (simp add: maybe_summarize_short_term_def)
  moreover have "\<not> prefix ''[Memory] Storing summary'' ''[Memory] Summarizing short-term memory...''"
    by simp
  ultimately show "\<forall>line \<in> set (printed (maybe_summarize_short_term llm self)).
         \<not> prefix ''[Memory] Storing summary'' line"
    by blast
next
  fix c
  assume "\<forall>role content. c \<noteq> Add role content"
  then show "short_term (state_after c self) = short_term self"
    by (rule state_after_short_term)
qed

text \<open>
  Twenty user turns on a manager of capacity 10 and a delegate that times out: the state
  is the one before the call and only the first line is printed.
\<close>

theorem summarization_keeps_buffer_witness:
  "maybe_summarize_short_term (\<lambda>prompt. Inl (DelegateError ''timeout''))
     (snd (add_all (replicate 20 (''User'', ''hello'')) (MemoryManager 10))) =
   (Inl (DelegateError ''timeout''),
    snd (add_all (replicate 20 (''User'', ''hello'')) (MemoryManager 10)),
    [''[Memory] Summarizing short-term memory...'']) \<and>
   short_term (state_after (Store ''facts'')
     (snd (add_all (replicate 20 (''User'', ''hello'')) (MemoryManager 10)))) =
   short_term (snd (add_all (replicate 20 (''User'', ''hello'')) (MemoryManager 10)))"
proof -
  have lim: "0 \<le> short_term_limit (MemoryManager 10)"
    by (simp add: MemoryManager_def)
  have u: "lower ''User'' = ''user''"
    by code_simp
  show ?thesis
    using summarization_keeps_buffer [of "\<lambda>prompt. Inl (DelegateError ''timeout'')"
      "snd (add_all (replicate 20 (''User'', ''hello'')) (MemoryManager 10))"]
    unfolding add_all_nonneg [OF lim]
    by (simp add: MemoryManager_def u maybe_summarize_short_term_def store_long_term_memory_def)
qed

section \<open>Prompt composition\<close>

subsection \<open>Joined lines and their place in the prompt\<close>

lemma join_member_sublist:
  "m \<in> set xs \<Longrightarrow> sublist m (join sep xs)"
proof (induction sep xs rule: join.induct)
  case (1 sep)
  then show ?case by simp
next
  case (2 sep x)
  then show ?case by simp
next
  case (3 sep x y ys)
  show ?case
  proof (cases "m = x")
    case True
    then show ?thesis by simp
  next
    case False
    with 3 have "sublist m (join sep (y # ys))" by simp
    then obtain ps ss where "join sep (y # ys) = ps @ m @ ss"
      by (auto simp: sublist_def)
    then have "join sep (x # y # ys) = (x @ sep @ ps) @ m @ ss" by simp
    then show ?thesis unfolding sublist_def by blast
  qed
qed

lemma sublist_in_context:
  "sublist m xs \<Longrightarrow> sublist m (ps @ xs @ ss)"
  by (auto simp: sublist_def) (metis append.assoc)

lemma build_llm_prompt_eq:
  "build_llm_prompt user_message relevant_memories self =
     (Inr (facts_heading @ join nl relevant_memories @
           conversation_heading @ join nl (short_term self) @
           message_heading @ user_message @ closing_instruction),
      self, [])"
  by (simp add: build_llm_prompt_def facts_heading_def conversation_heading_def
        message_heading_def closing_instruction_def)

subsection \<open>The same inputs give the same prompt\<close>

text \<open>
  C6. \<open>build_llm_prompt\<close> reads the user message, the relevant memories and the
  short-term buffer, and nothing else of the manager: two calls with the same message,
  the same memories and the same buffer contents return the same string, character for
  character, whatever the other attributes are. The call leaves the state as it was and
  prints nothing; it is given no collaborator to call.
\<close>

theorem build_llm_prompt_pure:
  "short_term a = short_term b \<Longrightarrow>
   outcome (build_llm_prompt user_message relevant_memories a) =
     outcome (build_llm_prompt user_message relevant_memories b) \<and>
   after (build_llm_prompt user_message relevant_memories a) = a \<and>
   printed (build_llm_prompt user_message relevant_memories a) = []"
  by (simp add: build_llm_prompt_def)

text \<open>Two managers that differ in limit and counter, with the same line in the buffer.\<close>

theorem build_llm_prompt_pure_witness:
  "short_term (MemoryManager 3\<lparr>short_term := [''User: hi'']\<rparr>) =
   short_term (MemoryManager 10\<lparr>short_term := [''User: hi''], user_message_count := 1\<rparr>) \<and>
   outcome (build_llm_prompt ''and now?'' [''likes tea''] (MemoryManager 3\<lparr>short_term := [''User: hi'']\<rparr>)) =
   outcome (build_llm_prompt ''and now?'' [''likes tea'']
     (MemoryManager 10\<lparr>short_term := [''User: hi''], user_message_count := 1\<rparr>))"
  using build_llm_prompt_pure [of "MemoryManager 3\<lparr>short_term := [''User: hi'']\<rparr>"
    "MemoryManager 10\<lparr>short_term := [''User: hi''], user_message_count := 1\<rparr>" "''and now?''" "[''likes tea'']"]
  by (simp add: MemoryManager_def)

subsection \<open>The sections of the prompt\<close>

text \<open>
  C7. For every user message, list of relevant memories and buffer, \<open>build_llm_prompt\<close>
  returns one string: the facts heading, the memories joined by newlines, the
  conversation heading, the buffer's lines joined by newlines, the message heading, the
  user message, and the closing instruction, in this order, the four fixed pieces being
  the same for every input. Every memory, every buffer line and the message occur in the
  string, so no section is dropped. With no memories the facts section is empty and the
  pieces around it are unchanged.
\<close>

theorem build_llm_prompt_sections:
  "\<exists>prompt.
     build_llm_prompt user_message relevant_memories self = (Inr prompt, self, []) \<and>
     prompt =
       facts_heading @ join nl relevant_memories @
       conversation_heading @ join nl (short_term self) @
       message_heading @ user_message @ closing_instruction \<and>
     (\<forall>m \<in> set relevant_memories. sublist m prompt) \<and>
     (\<forall>line \<in> set (short_term self). sublist line prompt) \<and>
     sublist user_message prompt \<and>
     (relevant_memories = [] \<longrightarrow>
        prompt =
          facts_heading @
          conversation_heading @ join nl (short_term self) @
          message_heading @ user_message @ closing_instruction)"
proof -
  let ?facts = "join nl relevant_memories"
  let ?recent = "join nl (short_term self)"
  let ?prompt = "facts_heading @ ?facts @ conversation_heading @ ?recent @
       message_heading @ user_message @ closing_instruction"
  have mem: "sublist m ?prompt" if "m \<in> set relevant_memories" for m
    using sublist_in_context [OF join_member_sublist [OF that], of facts_heading nl
       "conversation_heading @ ?recent @ message_heading @ user_message @ closing_instruction"]
    by simp
  have rec: "sublist line ?prompt" if "line \<in> set (short_term self)" for line
    using sublist_in_context [OF join_member_sublist [OF that],
       of "facts_heading @ ?facts @ conversation_heading" nl
       "message_heading @ user_message @ closing_instruction"]
    by simp
  have msg: "sublist user_message ?prompt"
    using sublist_appendI [of user_message
       "facts_heading @ ?facts @ conversation_heading @ ?recent @ message_heading"
       closing_instruction]
    by simp
  have emp: "relevant_memories = [] \<longrightarrow>
        ?prompt = facts_heading @ conversation_heading @ ?recent @
          message_heading @ user_message @ closing_instruction"
    by simp
  show ?thesis
    using mem rec msg emp build_llm_prompt_eq [of user_message relevant_memories self]
    by blast
qed

text \<open>One memory, two buffer lines and a message: the prompt, written out.\<close>

theorem build_llm_prompt_sections_witness:
  "build_llm_prompt ''and now?'' [''likes tea''] (MemoryManager 3\<lparr>short_term := [''User: hi'', ''AI: hello'']\<rparr>) =
   (Inr (nl @ ''You are a helpful assistant. Below are relevant facts from memory:'' @ nl @
         ''likes tea'' @ nl @ nl @
         ''Here is the recent conversation:'' @ nl @
         ''User: hi'' @ nl @ ''AI: hello'' @ nl @ nl @
         ''Now the user says:'' @ nl @
         ''User: and now?'' @ nl @ nl @
         ''Please respond in a clear and concise manner.'' @ nl),
    MemoryManager 3\<lparr>short_term := [''User: hi'', ''AI: hello'']\<rparr>, []) \<and>
   sublist ''likes tea''
     (projr (outcome (build_llm_prompt ''and now?'' [''likes tea'']
        (MemoryManager 3\<lparr>short_term := [''User: hi'', ''AI: hello'']\<rparr>))))"
  using build_llm_prompt_sections [of "''and now?''" "[''likes tea'']"
     "MemoryManager 3\<lparr>short_term := [''User: hi'', ''AI: hello'']\<rparr>"]
  by (auto simp add: MemoryManager_def facts_heading_def conversation_heading_def
        message_heading_def closing_instruction_def)

section \<open>Long-term memory\<close>

subsection \<open>No call sets the vector-store handles\<close>

lemma state_after_collection:
  "collection (state_after c s) = collection s \<and> chroma_client (state_after c s) = chroma_client s"
proof (cases c)
  case (Add role content)
  show ?thesis
  proof (cases "0 \<le> short_term_limit s")
    case True
    then show ?thesis by (simp add: Add add_nonneg)
  next
    case False
    then show ?thesis by (simp add: Add add_negative)
  qed
qed (simp_all add: maybe_summarize_state get_short_term_context_def
        store_long_term_memory_def get_relevant_memories_def build_llm_prompt_def)

lemma run_collection:
  "collection (run cs s) = collection s \<and> chroma_client (run cs s) = chroma_client s"
  by (induction cs arbitrary: s) (simp_all add: state_after_collection)

subsection \<open>Querying\<close>

text \<open>
  C8. For every query string and every state, \<open>get_relevant_memories\<close> returns the
  empty list and raises nothing, and it leaves the state as it was. A new manager has
  no collection and no client, and no sequence of calls gives it one: the store is
  empty, with no backend, in every state the manager reaches.
\<close>

theorem get_relevant_memories_empty:
  "outcome (get_relevant_memories query self) = Inr [] \<and>
   after (get_relevant_memories query self) = self \<and>
   collection (MemoryManager N) = None \<and> chroma_client (MemoryManager N) = None \<and>
   collection (run cs (MemoryManager N)) = None \<and> chroma_client (run cs (MemoryManager N)) = None"
  by (simp add: get_relevant_memories_def run_collection MemoryManager_def)

subsection \<open>Storing and then querying\<close>

text \<open>
  C10. \<open>store_long_term_memory\<close> returns, prints its line and leaves every attribute of
  the manager as it was, for every summary. After every sequence of calls of any of the
  methods, any number of stores among them, \<open>get_relevant_memories\<close> returns the empty
  list for every query: the memories that reach \<open>build_llm_prompt\<close> this way are none.
\<close>

theorem long_term_memory_noop:
  "store_long_term_memory summary self =
     (Inr (), self, [''[Memory] Storing summary in long-term DB: '' @ take 60 summary @ ''...'']) \<and>
   state_after (Store summary) self = self \<and>
   outcome (get_relevant_memories query (run cs self)) = Inr []"
  by (simp add: store_long_term_memory_def get_relevant_memories_def)

text \<open>A user turn, two stores and a consolidation attempt, then a query.\<close>

theorem long_term_memory_noop_witness:
  "outcome (get_relevant_memories ''tea''
     (run [Add ''user'' ''I like tea'', Store ''likes tea'', Store ''likes tea'',
           MaybeSummarize (\<lambda>prompt. Inr ''likes tea'')] (MemoryManager 10))) = Inr []"
  using long_term_memory_noop [of "''likes tea''" "MemoryManager 10" "''tea''"
      "[Add ''user'' ''I like tea'', Store ''likes tea'', Store ''likes tea'',
           MaybeSummarize (\<lambda>prompt. Inr ''likes tea'')]"]
  by simp

end
